theory Spec2Isabelle
  imports
    Main
    "HOL-Library.Word"
    "HOL-Library.Sublist"
    "HOL-Library.Multiset"
    "HOL-Library.Char_ord"
    "HOL-Library.List_Lexorder"
begin

section \<open>Manifest assembly of the installer: \<open>pkg/asset/manifests/operators.go\<close>\<close>

text \<open>
  A shallow embedding of \<open>operators.go\<close>. Go byte slices and strings are both
  \<^typ>\<open>string\<close> (lists of bytes). A Go function either returns or panics; a panic is
  the constructor \<open>Panicked\<close> of \<open>result\<close>. A Go \<open>error\<close> value is a message
  (\<^typ>\<open>string\<close>); \<open>nil\<close> is \<open>None\<close>.
\<close>

subsection \<open>Results, panics and errors\<close>

datatype 'a result = Returned 'a | Panicked string

text \<open>Sequencing of two computations that may panic: the first panic wins.\<close>

fun thenR :: "'a result \<Rightarrow> ('a \<Rightarrow> 'b result) \<Rightarrow> 'b result" where
  "thenR (Returned x) k = k x"
| "thenR (Panicked e) k = Panicked e"

text \<open>\<open>errors.Wrap(err, msg)\<close>: the message of the wrapped error is \<open>msg: err\<close>.\<close>

definition errors_Wrap :: "string \<Rightarrow> string \<Rightarrow> string" where
  "errors_Wrap err msg = msg @ '': '' @ err"

subsection \<open>Template functions\<close>

text \<open>
  \<open>strings.Repeat(s, count)\<close> panics on a negative count and otherwise returns
  \<open>count\<close> copies of \<open>s\<close>.
\<close>

definition strings_Repeat :: "string \<Rightarrow> int \<Rightarrow> string result" where
  "strings_Repeat s n =
     (if n < 0 then Panicked ''strings: negative Repeat count''
      else Returned (concat (replicate (nat n) s)))"

text \<open>
  \<open>strings.Replace(s, old, new, -1)\<close> for a non-empty \<open>old\<close>: every
  non-overlapping occurrence of \<open>old\<close>, found from left to right, becomes \<open>new\<close>.
  (The source only calls it with the one-byte pattern \<open>"\n"\<close>; with an empty pattern
  this function replaces nothing.)
\<close>

function strings_Replace_all :: "string \<Rightarrow> string \<Rightarrow> string \<Rightarrow> string" where
  "strings_Replace_all [] old new = []"
| "strings_Replace_all (c # s) old new =
     (if old \<noteq> [] \<and> prefix old (c # s)
      then new @ strings_Replace_all (drop (length old) (c # s)) old new
      else c # strings_Replace_all s old new)"
  by pat_completeness auto
termination
  by (relation "measure (\<lambda>(s, old, new). length s)") (auto simp: neq_Nil_conv)

text \<open>
  \<open>func indent(indention int, v string) string\<close>, lines 270-273. The newline
  byte is \<open>0x0A\<close>.
\<close>

definition indent :: "int \<Rightarrow> string \<Rightarrow> string result" where
  "indent indention v =
     thenR (strings_Repeat '' '' indention) (\<lambda>spaces.
       let newline = [CHR 0x0A] @ spaces
       in Returned (strings_Replace_all v [CHR 0x0A] newline))"

text \<open>
  The anonymous function \<open>"add": func(i, j int) int { return i + j }\<close>, lines 32-34.
  Go's \<open>int\<close> is a 64-bit machine integer on the platforms the installer is built for;
  \<open>+\<close> wraps around.
\<close>

definition add :: "64 word \<Rightarrow> 64 word \<Rightarrow> 64 word" where
  "add i j = i + j"

text \<open>\<open>template.FuncMap\<close> with the two entries of \<open>customTmplFuncs\<close>, lines 30-35.\<close>

record funcMap =
  fn_indent :: "int \<Rightarrow> string \<Rightarrow> string result"
  fn_add :: "64 word \<Rightarrow> 64 word \<Rightarrow> 64 word"

definition customTmplFuncs :: funcMap where
  "customTmplFuncs = \<lparr> fn_indent = indent, fn_add = add \<rparr>"

text \<open>
  The behaviour the specification words for \<open>indent\<close>: every newline of the text is
  replaced by a newline followed by \<open>n\<close> spaces.
\<close>

definition indent_spec :: "nat \<Rightarrow> string \<Rightarrow> string" where
  "indent_spec n text =
     concat (map (\<lambda>c. if c = CHR 0x0A then CHR 0x0A # replicate n CHR '' '' else [c]) text)"

subsection \<open>Files, the anchor object and the asset's state\<close>

text \<open>\<open>asset.File\<close>: an output path and its bytes.\<close>

record asset_File =
  Filename :: string
  Data :: string

text \<open>\<open>type genericData map[string]string\<close>, line 44.\<close>

type_synonym genericData = "string \<rightharpoonup> string"

text \<open>
  Modelled from the spec: the type \<open>configurationObject\<close> and its constructor
  \<open>configMap\<close> are declared outside \<open>operators.go\<close>. The specification describes the
  object as a structured document with a namespace, a kind, a name and an embedded
  key-to-string data map, representing a cluster config map.
\<close>

record configurationObject =
  co_namespace :: string
  co_kind :: string
  co_name :: string
  co_data :: genericData

definition configMap :: "string \<Rightarrow> string \<Rightarrow> genericData \<Rightarrow> configurationObject" where
  "configMap ns nm d =
     \<lparr> co_namespace = ns, co_kind = ''ConfigMap'', co_name = nm, co_data = d \<rparr>"

text \<open>The zero value \<open>&configurationObject{}\<close> of line 247.\<close>

definition zeroConfigurationObject :: configurationObject where
  "zeroConfigurationObject =
     \<lparr> co_namespace = [], co_kind = [], co_name = [], co_data = Map.empty \<rparr>"

text \<open>\<open>type Manifests struct\<close>, lines 39-42; a nil pointer is \<open>None\<close>.\<close>

record Manifests =
  KubeSysConfig :: "configurationObject option"
  FileList :: "asset_File list"

definition manifestDir :: string where
  "manifestDir = ''manifests''"

text \<open>
  \<open>filepath.Join\<close> of two non-empty, clean path elements (the only use the source
  makes of it), with the separator \<open>/\<close>.
\<close>

definition filepath_Join :: "string \<Rightarrow> string \<Rightarrow> string" where
  "filepath_Join dir nm = dir @ ''/'' @ nm"

definition kubeSysConfigPath :: string where
  "kubeSysConfigPath = filepath_Join manifestDir ''cluster-config.yaml''"

text \<open>
  Modelled from the spec: \<open>asset.SortFiles\<close> is declared outside \<open>operators.go\<close>. The
  specification says that the merged set is sorted by path, lexicographically. Paths
  are byte strings, compared as Go compares strings. Files with equal paths keep their
  relative order here; when all paths are distinct, every procedure that sorts by path
  returns this list (lemma \<open>sorted_perm_unique\<close> below).
\<close>

definition SortFiles :: "asset_File list \<Rightarrow> asset_File list" where
  "SortFiles files = sort_key Filename files"

text \<open>\<open>X.Files()[0].Data\<close>: indexing an empty slice panics.\<close>

definition firstFileData :: "asset_File list \<Rightarrow> string result" where
  "firstFileData files =
     (case files of
        [] \<Rightarrow> Panicked ''index out of range''
      | f # _ \<Rightarrow> Returned (Data f))"

subsection \<open>Resolved dependencies\<close>

text \<open>
  What \<open>dependencies.Get\<close> hands to \<open>Generate\<close>: for every parent asset the values
  the source reads from it.
\<close>

record installConfig =
  ic_Files :: "asset_File list"
  ic_Name :: string
  ic_BaseDomain :: string
  ic_PullSecret :: string
  ic_MasterCount :: int

record certKey =
  Cert :: string
  Key :: string

record parents =
  p_clusterID :: string
  p_installConfig :: installConfig
  p_ingress :: "asset_File list"
  p_dns :: "asset_File list"
  p_network :: "asset_File list"
  p_infra :: "asset_File list"
  p_rootCA :: certKey
  p_etcdCA :: certKey
  p_kubeCA :: certKey
  p_serviceServingCA :: certKey
  p_etcdClientCertKey :: certKey
  p_mcsCertKey :: certKey
  p_kubeCloudConfig :: "asset_File list"
  p_machineConfigServerTLSSecret :: "asset_File list"
  p_openshiftServiceCertSignerSecret :: "asset_File list"
  p_pull :: "asset_File list"
  p_cVOOverrides :: "asset_File list"
  p_hostEtcdServiceEndpointsKubeSystem :: "asset_File list"
  p_kubeSystemConfigmapEtcdServingCA :: "asset_File list"
  p_kubeSystemConfigmapRootCA :: "asset_File list"
  p_kubeSystemSecretEtcdClient :: "asset_File list"
  p_openshiftMachineConfigOperator :: "asset_File list"
  p_openshiftServiceCertSignerNamespace :: "asset_File list"
  p_etcdServiceKubeSystem :: "asset_File list"
  p_hostEtcdServiceKubeSystem :: "asset_File list"

subsection \<open>Formatting and encoding\<close>

text \<open>The verb \<open>%d\<close> of \<open>fmt.Sprintf\<close> on a non-negative integer: its decimal digits.\<close>

definition digit_char :: "nat \<Rightarrow> char" where
  "digit_char d = ''0123456789'' ! (d mod 10)"

function fmt_d :: "nat \<Rightarrow> string" where
  "fmt_d n = (if n < 10 then [digit_char n] else fmt_d (n div 10) @ [digit_char (n mod 10)])"
  by pat_completeness auto
termination
  by (relation "measure id") auto

text \<open>
  \<open>base64.StdEncoding.EncodeToString\<close>: three bytes become four characters of the
  standard alphabet; a last group of one or two bytes is padded with \<open>=\<close>.
\<close>

definition base64_alphabet :: string where
  "base64_alphabet = ''ABCDEFGHIJKLMNOPQRSTUVWXYZabcdefghijklmnopqrstuvwxyz0123456789+/''"

definition base64_char :: "nat \<Rightarrow> char" where
  "base64_char n = base64_alphabet ! (n mod 64)"

fun base64_groups :: "nat list \<Rightarrow> string" where
  "base64_groups [] = []"
| "base64_groups [a] =
     [base64_char (a div 4), base64_char ((a mod 4) * 16), CHR ''='', CHR ''='']"
| "base64_groups [a, b] =
     [base64_char (a div 4), base64_char ((a mod 4) * 16 + b div 16),
      base64_char ((b mod 16) * 4), CHR ''='']"
| "base64_groups (a # b # c # rest) =
     [base64_char (a div 4), base64_char ((a mod 4) * 16 + b div 16),
      base64_char ((b mod 16) * 4 + c div 64), base64_char (c mod 64)]
     @ base64_groups rest"

definition base64_EncodeToString :: "string \<Rightarrow> string" where
  "base64_EncodeToString bytes = base64_groups (map of_char bytes)"

subsection \<open>The template context\<close>

text \<open>The fields of \<open>bootkubeTemplateData\<close> that lines 153-169 set.\<close>

record bootkubeTemplateData =
  Base64encodeCloudProviderConfig :: string
  EtcdCaCert :: string
  EtcdClientCert :: string
  EtcdClientKey :: string
  KubeCaCert :: string
  KubeCaKey :: string
  McsTLSCert :: string
  McsTLSKey :: string
  PullSecretBase64 :: string
  RootCaCert :: string
  ServiceServingCaCert :: string
  ServiceServingCaKey :: string
  CVOClusterID :: string
  EtcdEndpointHostnames :: "string list"
  EtcdEndpointDNSSuffix :: string

text \<open>
  Lines 148-151. \<open>make([]string, n)\<close> panics for a negative \<open>n\<close>; the loop then
  fills index \<open>i\<close> with \<open>Sprintf("%s-etcd-%d", name, i)\<close>.
\<close>

definition etcdEndpointHostnames :: "installConfig \<Rightarrow> string list result" where
  "etcdEndpointHostnames ic =
     (if ic_MasterCount ic < 0 then Panicked ''makeslice: len out of range''
      else Returned (map (\<lambda>i. ic_Name ic @ ''-etcd-'' @ fmt_d i) [0..<nat (ic_MasterCount ic)]))"

text \<open>Lines 153-169.\<close>

definition templateData :: "parents \<Rightarrow> string list \<Rightarrow> bootkubeTemplateData" where
  "templateData p hostnames =
     \<lparr> Base64encodeCloudProviderConfig = [],
       EtcdCaCert = Cert (p_etcdCA p),
       EtcdClientCert = base64_EncodeToString (Cert (p_etcdClientCertKey p)),
       EtcdClientKey = base64_EncodeToString (Key (p_etcdClientCertKey p)),
       KubeCaCert = base64_EncodeToString (Cert (p_kubeCA p)),
       KubeCaKey = base64_EncodeToString (Key (p_kubeCA p)),
       McsTLSCert = base64_EncodeToString (Cert (p_mcsCertKey p)),
       McsTLSKey = base64_EncodeToString (Key (p_mcsCertKey p)),
       PullSecretBase64 = base64_EncodeToString (ic_PullSecret (p_installConfig p)),
       RootCaCert = Cert (p_rootCA p),
       ServiceServingCaCert = base64_EncodeToString (Cert (p_serviceServingCA p)),
       ServiceServingCaKey = base64_EncodeToString (Key (p_serviceServingCA p)),
       CVOClusterID = p_clusterID p,
       EtcdEndpointHostnames = hostnames,
       EtcdEndpointDNSSuffix = ic_BaseDomain (p_installConfig p) \<rparr>"


subsection \<open>Rendering a template\<close>

text \<open>
  The template engine is Go's \<open>text/template\<close>, outside this repository. It enters
  as two parameters: \<open>parse\<close> (\<open>template.New("template").Funcs(fs).Parse(text)\<close>,
  the function map passed explicitly) and \<open>execute\<close> (\<open>Execute\<close> on a buffer,
  returning the buffer's bytes); each returns \<open>Inl\<close> of an error or \<open>Inr\<close> of its
  result.

  \<open>func applyTemplateData\<close>, lines 228-235: \<open>template.Must\<close> panics on a parse
  error, and an execution error is passed to \<open>panic\<close>.
\<close>

definition applyTemplateData ::
  "(funcMap \<Rightarrow> string \<Rightarrow> string + 't) \<Rightarrow> ('t \<Rightarrow> 'd \<Rightarrow> string + string)
   \<Rightarrow> string \<Rightarrow> 'd \<Rightarrow> string result" where
  "applyTemplateData parse execute bytes td =
     (case parse customTmplFuncs bytes of
        Inl err \<Rightarrow> Panicked err
      | Inr tmpl \<Rightarrow>
          (case execute tmpl td of
             Inl err \<Rightarrow> Panicked err
           | Inr buf \<Rightarrow> Returned buf))"

subsection \<open>The bootkube manifests\<close>

text \<open>
  The entries of a map literal are evaluated in the order they are written; the first
  panic ends the evaluation.
\<close>

fun collect :: "('k \<times> 'v result) list \<Rightarrow> ('k \<times> 'v) list result" where
  "collect [] = Returned []"
| "collect ((k, r) # rest) =
     thenR r (\<lambda>v. thenR (collect rest) (\<lambda>kvs. Returned ((k, v) # kvs)))"

text \<open>The map literal \<open>assetData\<close>, lines 200-215.\<close>

definition assetData ::
  "(funcMap \<Rightarrow> string \<Rightarrow> string + 't) \<Rightarrow> ('t \<Rightarrow> bootkubeTemplateData \<Rightarrow> string + string)
   \<Rightarrow> parents \<Rightarrow> bootkubeTemplateData \<Rightarrow> (string \<times> string) list result" where
  "assetData parse execute p td =
     (let render = (\<lambda>files. thenR (firstFileData files)
                              (\<lambda>d. applyTemplateData parse execute d td))
      in collect
        [(''kube-cloud-config.yaml'', render (p_kubeCloudConfig p)),
         (''machine-config-server-tls-secret.yaml'', render (p_machineConfigServerTLSSecret p)),
         (''openshift-service-signer-secret.yaml'', render (p_openshiftServiceCertSignerSecret p)),
         (''pull.json'', render (p_pull p)),
         (''cvo-overrides.yaml'', render (p_cVOOverrides p)),
         (''host-etcd-service-endpoints.yaml'', render (p_hostEtcdServiceEndpointsKubeSystem p)),
         (''kube-system-configmap-etcd-serving-ca.yaml'', render (p_kubeSystemConfigmapEtcdServingCA p)),
         (''kube-system-configmap-root-ca.yaml'', render (p_kubeSystemConfigmapRootCA p)),
         (''kube-system-secret-etcd-client.yaml'', render (p_kubeSystemSecretEtcdClient p)),
         (''04-openshift-machine-config-operator.yaml'', firstFileData (p_openshiftMachineConfigOperator p)),
         (''09-openshift-service-signer-namespace.yaml'', firstFileData (p_openshiftServiceCertSignerNamespace p)),
         (''etcd-service.yaml'', firstFileData (p_etcdServiceKubeSystem p)),
         (''host-etcd-service.yaml'', firstFileData (p_hostEtcdServiceKubeSystem p))])"

text \<open>The keys of \<open>assetData\<close>.\<close>

definition assetNames :: "string list" where
  "assetNames =
     [''kube-cloud-config.yaml'',
      ''machine-config-server-tls-secret.yaml'',
      ''openshift-service-signer-secret.yaml'',
      ''pull.json'',
      ''cvo-overrides.yaml'',
      ''host-etcd-service-endpoints.yaml'',
      ''kube-system-configmap-etcd-serving-ca.yaml'',
      ''kube-system-configmap-root-ca.yaml'',
      ''kube-system-secret-etcd-client.yaml'',
      ''04-openshift-machine-config-operator.yaml'',
      ''09-openshift-service-signer-namespace.yaml'',
      ''etcd-service.yaml'',
      ''host-etcd-service.yaml'']"

text \<open>
  \<open>for name, data := range assetData\<close>: Go visits the entries of a map in an order it
  does not specify. The order of one run is the parameter \<open>order\<close>, a list of keys;
  in a run of the program it holds every key of the map once (\<open>iterationOrder\<close>).
\<close>

definition rangeMap :: "'k list \<Rightarrow> ('k \<times> 'v) list \<Rightarrow> ('k \<times> 'v) list" where
  "rangeMap order kvs =
     concat (map (\<lambda>k. case map_of kvs k of None \<Rightarrow> [] | Some v \<Rightarrow> [(k, v)]) order)"

definition iterationOrder :: "string list \<Rightarrow> bool" where
  "iterationOrder order \<longleftrightarrow> distinct order \<and> set order = set assetNames"

text \<open>\<open>func (m *Manifests) generateBootKubeManifests\<close>, lines 128-226.\<close>

definition generateBootKubeManifests ::
  "(funcMap \<Rightarrow> string \<Rightarrow> string + 't) \<Rightarrow> ('t \<Rightarrow> bootkubeTemplateData \<Rightarrow> string + string)
   \<Rightarrow> string list \<Rightarrow> parents \<Rightarrow> asset_File list result" where
  "generateBootKubeManifests parse execute order p =
     thenR (etcdEndpointHostnames (p_installConfig p)) (\<lambda>hostnames.
       thenR (assetData parse execute p (templateData p hostnames)) (\<lambda>kvs.
         Returned (map (\<lambda>(nm, d). \<lparr> Filename = filepath_Join manifestDir nm, Data = d \<rparr>)
                       (rangeMap order kvs))))"

subsection \<open>Generate\<close>

text \<open>
  \<open>func (m *Manifests) Generate\<close>, lines 88-121. \<open>yaml.Marshal\<close> is the
  parameter \<open>marshal\<close>. The function returns the error (or nil) together with the
  receiver as it leaves it, or it panics.
\<close>

definition Generate ::
  "(configurationObject \<Rightarrow> string + string)
   \<Rightarrow> (funcMap \<Rightarrow> string \<Rightarrow> string + 't) \<Rightarrow> ('t \<Rightarrow> bootkubeTemplateData \<Rightarrow> string + string)
   \<Rightarrow> string list \<Rightarrow> parents \<Rightarrow> Manifests \<Rightarrow> (string option \<times> Manifests) result" where
  "Generate marshal parse execute order p m =
     thenR (firstFileData (ic_Files (p_installConfig p))) (\<lambda>icData.
       let cfg = configMap ''kube-system'' ''cluster-config-v1'' [''install-config'' \<mapsto> icData];
           m1 = m\<lparr> KubeSysConfig := Some cfg \<rparr>
       in case marshal cfg of
            Inl err \<Rightarrow>
              Returned (Some (errors_Wrap err
                          ''failed to create kube-system/cluster-config-v1 configmap''), m1)
          | Inr kubeSysConfigData \<Rightarrow>
              thenR (generateBootKubeManifests parse execute order p) (\<lambda>bootkube.
                Returned (None,
                  m1\<lparr> FileList := SortFiles
                        ([\<lparr> Filename = kubeSysConfigPath, Data = kubeSysConfigData \<rparr>]
                         @ bootkube @ p_ingress p @ p_dns p @ p_network p @ p_infra p) \<rparr>)))"

subsection \<open>Load\<close>

text \<open>
  The loop of lines 249-256 over the fetched files, with the object being filled and
  the flag \<open>found\<close> as its state. \<open>yaml.Unmarshal(data, obj)\<close> is the parameter
  \<open>unmarshal\<close>: it returns an error or the object as the decoder leaves it.
\<close>

fun loadLoop ::
  "(string \<Rightarrow> configurationObject \<Rightarrow> string + configurationObject)
   \<Rightarrow> asset_File list \<Rightarrow> configurationObject \<Rightarrow> bool
   \<Rightarrow> string + (configurationObject \<times> bool)" where
  "loadLoop unmarshal [] kubeSysConfig found = Inr (kubeSysConfig, found)"
| "loadLoop unmarshal (f # files) kubeSysConfig found =
     (if Filename f = kubeSysConfigPath
      then (case unmarshal (Data f) kubeSysConfig of
              Inl err \<Rightarrow> Inl (errors_Wrap err ''failed to unmarshal cluster-config.yaml'')
            | Inr obj \<Rightarrow> loadLoop unmarshal files obj True)
      else loadLoop unmarshal files kubeSysConfig found)"

text \<open>
  \<open>func (m *Manifests) Load\<close>, lines 238-268. The \<open>asset.FileFetcher\<close> is its method
  \<open>FetchByPattern\<close>, the parameter \<open>fetch\<close>. The result is \<open>(found, error, receiver)\<close>.
\<close>

definition Load ::
  "(string \<Rightarrow> string + asset_File list)
   \<Rightarrow> (string \<Rightarrow> configurationObject \<Rightarrow> string + configurationObject)
   \<Rightarrow> Manifests \<Rightarrow> bool \<times> string option \<times> Manifests" where
  "Load fetch unmarshal m =
     (case fetch (filepath_Join manifestDir ''*'') of
        Inl err \<Rightarrow> (False, Some err, m)
      | Inr fileList \<Rightarrow>
          if length fileList = 0 then (False, None, m)
          else (case loadLoop unmarshal fileList zeroConfigurationObject False of
                  Inl err \<Rightarrow> (False, Some err, m)
                | Inr (kubeSysConfig, found) \<Rightarrow>
                    if \<not> found then (False, None, m)
                    else (True, None,
                          m\<lparr> FileList := SortFiles fileList,
                             KubeSysConfig := Some kubeSysConfig \<rparr>)))"

subsection \<open>Storage\<close>

text \<open>
  Modelled from the spec: the storage collaborator behind \<open>asset.FileFetcher\<close> is
  declared outside \<open>operators.go\<close>. The specification asks for a glob-style query for
  the files directly under the output root, in no particular enumeration order. A
  storage is the list of its files in the order it enumerates them; \<open>*\<close> in a pattern
  stands for any run of bytes other than the separator.
\<close>

fun glob_match :: "string \<Rightarrow> string \<Rightarrow> bool" where
  "glob_match [] s = (s = [])"
| "glob_match (c # pat) [] = (c = CHR ''*'' \<and> glob_match pat [])"
| "glob_match (c # pat) (x # s) =
     (if c = CHR ''*''
      then glob_match pat (x # s) \<or> (x \<noteq> CHR ''/'' \<and> glob_match (c # pat) s)
      else c = x \<and> glob_match pat s)"

definition storage_FetchByPattern :: "asset_File list \<Rightarrow> string \<Rightarrow> string + asset_File list" where
  "storage_FetchByPattern storage pat =
     Inr (filter (\<lambda>f. glob_match pat (Filename f)) storage)"


subsection \<open>A concrete run\<close>

text \<open>
  Concrete collaborators and inputs, at which the theorems below are instantiated.
  The stand-in template engine rejects the text \<open>{{\<close> (an unclosed action) at
  parsing and the text \<open>{{.Missing}}\<close> (an undefined field) at execution, and
  otherwise renders a template as its own text; the stand-in codec writes the value
  stored under \<open>install-config\<close> and reads it back into the config map, rejecting an
  empty value in both directions.
\<close>

definition demo_parse :: "funcMap \<Rightarrow> string \<Rightarrow> string + string" where
  "demo_parse fs text = (if text = ''{{'' then Inl ''unclosed action'' else Inr text)"

definition demo_execute :: "string \<Rightarrow> bootkubeTemplateData \<Rightarrow> string + string" where
  "demo_execute tmpl td =
     (if tmpl = ''{{.Missing}}'' then Inl ''cannot evaluate field Missing'' else Inr tmpl)"

definition demo_marshal :: "configurationObject \<Rightarrow> string + string" where
  "demo_marshal obj =
     (case co_data obj ''install-config'' of
        None \<Rightarrow> Inl ''no install-config''
      | Some v \<Rightarrow> if v = [] then Inl ''empty document'' else Inr v)"

definition demo_unmarshal :: "string \<Rightarrow> configurationObject \<Rightarrow> string + configurationObject" where
  "demo_unmarshal bytes obj =
     (if bytes = [] then Inl ''EOF''
      else Inr (configMap ''kube-system'' ''cluster-config-v1'' [''install-config'' \<mapsto> bytes]))"

definition demo_installConfig :: installConfig where
  "demo_installConfig =
     \<lparr> ic_Files = [\<lparr> Filename = ''install-config.yaml'', Data = ''ic'' \<rparr>],
       ic_Name = ''demo'',
       ic_BaseDomain = ''example.com'',
       ic_PullSecret = ''{}'',
       ic_MasterCount = 3 \<rparr>"

definition demo_parents :: parents where
  "demo_parents =
     \<lparr> p_clusterID = ''id'',
       p_installConfig = demo_installConfig,
       p_ingress = [\<lparr> Filename = ''manifests/cluster-ingress-02-config.yml'', Data = ''i'' \<rparr>],
       p_dns = [\<lparr> Filename = ''manifests/cluster-dns-02-config.yml'', Data = ''d'' \<rparr>],
       p_network = [\<lparr> Filename = ''manifests/cluster-network-02-config.yml'', Data = ''n'' \<rparr>],
       p_infra = [\<lparr> Filename = ''manifests/cluster-infrastructure-02-config.yml'', Data = ''f'' \<rparr>],
       p_rootCA = \<lparr> Cert = ''rc'', Key = ''rk'' \<rparr>,
       p_etcdCA = \<lparr> Cert = ''ec'', Key = ''ek'' \<rparr>,
       p_kubeCA = \<lparr> Cert = ''kc'', Key = ''kk'' \<rparr>,
       p_serviceServingCA = \<lparr> Cert = ''sc'', Key = ''sk'' \<rparr>,
       p_etcdClientCertKey = \<lparr> Cert = ''cc'', Key = ''ck'' \<rparr>,
       p_mcsCertKey = \<lparr> Cert = ''mc'', Key = ''mk'' \<rparr>,
       p_kubeCloudConfig = [\<lparr> Filename = ''a'', Data = ''t1'' \<rparr>],
       p_machineConfigServerTLSSecret = [\<lparr> Filename = ''b'', Data = ''t2'' \<rparr>],
       p_openshiftServiceCertSignerSecret = [\<lparr> Filename = ''c'', Data = ''t3'' \<rparr>],
       p_pull = [\<lparr> Filename = ''d'', Data = ''t4'' \<rparr>],
       p_cVOOverrides = [\<lparr> Filename = ''e'', Data = ''t5'' \<rparr>],
       p_hostEtcdServiceEndpointsKubeSystem = [\<lparr> Filename = ''f'', Data = ''t6'' \<rparr>],
       p_kubeSystemConfigmapEtcdServingCA = [\<lparr> Filename = ''g'', Data = ''t7'' \<rparr>],
       p_kubeSystemConfigmapRootCA = [\<lparr> Filename = ''h'', Data = ''t8'' \<rparr>],
       p_kubeSystemSecretEtcdClient = [\<lparr> Filename = ''i'', Data = ''t9'' \<rparr>],
       p_openshiftMachineConfigOperator = [\<lparr> Filename = ''j'', Data = ''r1'' \<rparr>],
       p_openshiftServiceCertSignerNamespace = [\<lparr> Filename = ''k'', Data = ''r2'' \<rparr>],
       p_etcdServiceKubeSystem = [\<lparr> Filename = ''l'', Data = ''r3'' \<rparr>],
       p_hostEtcdServiceKubeSystem = [\<lparr> Filename = ''m'', Data = ''r4'' \<rparr>] \<rparr>"

definition demo_manifests :: Manifests where
  "demo_manifests = \<lparr> KubeSysConfig = None, FileList = [] \<rparr>"



definition emptyic_parents :: parents where
  "emptyic_parents =
     demo_parents\<lparr> p_installConfig :=
       demo_installConfig\<lparr> ic_Files := [\<lparr> Filename = ''install-config.yaml'', Data = [] \<rparr>] \<rparr> \<rparr>"

text \<open>What \<open>Generate\<close> leaves in the receiver on the concrete run.\<close>

definition demo_generated :: Manifests where
  "demo_generated =
     \<lparr> KubeSysConfig = Some (configMap ''kube-system'' ''cluster-config-v1'' [''install-config'' \<mapsto> ''ic'']),
       FileList =
         [\<lparr> Filename = ''manifests/04-openshift-machine-config-operator.yaml'', Data = ''r1'' \<rparr>,
          \<lparr> Filename = ''manifests/09-openshift-service-signer-namespace.yaml'', Data = ''r2'' \<rparr>,
          \<lparr> Filename = ''manifests/cluster-config.yaml'', Data = ''ic'' \<rparr>,
          \<lparr> Filename = ''manifests/cluster-dns-02-config.yml'', Data = ''d'' \<rparr>,
          \<lparr> Filename = ''manifests/cluster-infrastructure-02-config.yml'', Data = ''f'' \<rparr>,
          \<lparr> Filename = ''manifests/cluster-ingress-02-config.yml'', Data = ''i'' \<rparr>,
          \<lparr> Filename = ''manifests/cluster-network-02-config.yml'', Data = ''n'' \<rparr>,
          \<lparr> Filename = ''manifests/cvo-overrides.yaml'', Data = ''t5'' \<rparr>,
          \<lparr> Filename = ''manifests/etcd-service.yaml'', Data = ''r3'' \<rparr>,
          \<lparr> Filename = ''manifests/host-etcd-service-endpoints.yaml'', Data = ''t6'' \<rparr>,
          \<lparr> Filename = ''manifests/host-etcd-service.yaml'', Data = ''r4'' \<rparr>,
          \<lparr> Filename = ''manifests/kube-cloud-config.yaml'', Data = ''t1'' \<rparr>,
          \<lparr> Filename = ''manifests/kube-system-configmap-etcd-serving-ca.yaml'', Data = ''t7'' \<rparr>,
          \<lparr> Filename = ''manifests/kube-system-configmap-root-ca.yaml'', Data = ''t8'' \<rparr>,
          \<lparr> Filename = ''manifests/kube-system-secret-etcd-client.yaml'', Data = ''t9'' \<rparr>,
          \<lparr> Filename = ''manifests/machine-config-server-tls-secret.yaml'', Data = ''t2'' \<rparr>,
          \<lparr> Filename = ''manifests/openshift-service-signer-secret.yaml'', Data = ''t3'' \<rparr>,
          \<lparr> Filename = ''manifests/pull.json'', Data = ''t4'' \<rparr>] \<rparr>"

text \<open>The bootkube files of the concrete run, visited in the order the map literal is written.\<close>

definition demo_bootkube :: "asset_File list" where
  "demo_bootkube =
     [\<lparr> Filename = ''manifests/kube-cloud-config.yaml'', Data = ''t1'' \<rparr>,
      \<lparr> Filename = ''manifests/machine-config-server-tls-secret.yaml'', Data = ''t2'' \<rparr>,
      \<lparr> Filename = ''manifests/openshift-service-signer-secret.yaml'', Data = ''t3'' \<rparr>,
      \<lparr> Filename = ''manifests/pull.json'', Data = ''t4'' \<rparr>,
      \<lparr> Filename = ''manifests/cvo-overrides.yaml'', Data = ''t5'' \<rparr>,
      \<lparr> Filename = ''manifests/host-etcd-service-endpoints.yaml'', Data = ''t6'' \<rparr>,
      \<lparr> Filename = ''manifests/kube-system-configmap-etcd-serving-ca.yaml'', Data = ''t7'' \<rparr>,
      \<lparr> Filename = ''manifests/kube-system-configmap-root-ca.yaml'', Data = ''t8'' \<rparr>,
      \<lparr> Filename = ''manifests/kube-system-secret-etcd-client.yaml'', Data = ''t9'' \<rparr>,
      \<lparr> Filename = ''manifests/04-openshift-machine-config-operator.yaml'', Data = ''r1'' \<rparr>,
      \<lparr> Filename = ''manifests/09-openshift-service-signer-namespace.yaml'', Data = ''r2'' \<rparr>,
      \<lparr> Filename = ''manifests/etcd-service.yaml'', Data = ''r3'' \<rparr>,
      \<lparr> Filename = ''manifests/host-etcd-service.yaml'', Data = ''r4'' \<rparr>]"

text \<open>Two storages: one without the anchor file, one whose anchor file is an empty document.\<close>

definition partial_storage :: "asset_File list" where
  "partial_storage =
     [\<lparr> Filename = ''manifests/cluster-ingress-02-config.yml'', Data = ''i'' \<rparr>]"

definition corrupt_storage :: "asset_File list" where
  "corrupt_storage =
     [\<lparr> Filename = ''manifests/cluster-ingress-02-config.yml'', Data = ''i'' \<rparr>,
      \<lparr> Filename = ''manifests/cluster-config.yaml'', Data = [] \<rparr>,
      \<lparr> Filename = ''manifests/pull.json'', Data = ''t4'' \<rparr>]"

text \<open>
  The paths \<open>Generate\<close> chooses itself: the anchor path and the paths of the thirteen
  bootkube files.
\<close>

definition generatedPaths :: "string list" where
  "generatedPaths = kubeSysConfigPath # map (filepath_Join manifestDir) assetNames"

text \<open>A storage with the anchor file and one more file, enumerated out of order.\<close>

definition good_storage :: "asset_File list" where
  "good_storage =
     [\<lparr> Filename = ''manifests/pull.json'', Data = ''t4'' \<rparr>,
      \<lparr> Filename = ''manifests/cluster-config.yaml'', Data = ''ic'' \<rparr>]"

text \<open>A storage that holds the files of the concrete run and enumerates them backwards.\<close>

definition demo_storage :: "asset_File list" where
  "demo_storage = rev (FileList demo_generated)"

section \<open>Properties\<close>

subsection \<open>Template functions\<close>

lemma strings_Replace_all_single:
  "strings_Replace_all s [b] new = concat (map (\<lambda>c. if c = b then new else [c]) s)"
  by (induction s) auto

lemma concat_replicate_single: "concat (replicate n [c]) = replicate n c"
  by (induction n) auto

text \<open>
  Claim C7. For a non-negative indentation \<open>n\<close>, \<open>indent n text\<close> returns the text with
  every newline replaced by a newline followed by \<open>n\<close> spaces; \<open>indent 2 "a\nb"\<close> is
  \<open>"a\n  b"\<close>. The template function \<open>add\<close> returns Go's sum \<open>i + j\<close>, which is the
  mathematical sum whenever that sum is representable in a 64-bit signed integer, and
  \<open>add 3 4 = 7\<close>. (A negative indentation makes \<open>strings.Repeat\<close> panic.)
\<close>

theorem indent_and_add_correct:
  "(0 \<le> n \<longrightarrow> indent n text = Returned (indent_spec (nat n) text))
   \<and> indent 2 [CHR ''a'', CHR 0x0A, CHR ''b''] = Returned [CHR ''a'', CHR 0x0A, CHR '' '', CHR '' '', CHR ''b'']
   \<and> add i j = i + j
   \<and> (- (2 ^ 63) \<le> sint i + sint j \<and> sint i + sint j < 2 ^ 63 \<longrightarrow> sint (add i j) = sint i + sint j)
   \<and> fn_add customTmplFuncs 3 4 = 7
   \<and> fn_indent customTmplFuncs = indent"
proof -
  have a: "0 \<le> n \<longrightarrow> indent n text = Returned (indent_spec (nat n) text)"
    by (simp add: indent_def strings_Repeat_def indent_spec_def
        strings_Replace_all_single concat_replicate_single)
  have b: "indent 2 [CHR ''a'', CHR 0x0A, CHR ''b'']
           = Returned [CHR ''a'', CHR 0x0A, CHR '' '', CHR '' '', CHR ''b'']"
    by (simp add: indent_def strings_Repeat_def strings_Replace_all_single
        concat_replicate_single numeral_2_eq_2)
  have c: "- (2 ^ 63) \<le> sint i + sint j \<and> sint i + sint j < 2 ^ 63
           \<longrightarrow> sint (add i j) = sint i + sint j"
    by (auto simp: add_def signed_take_bit_int_eq_self_iff sint_word_ariths)
  have d: "fn_add customTmplFuncs 3 4 = 7"
    by (simp add: customTmplFuncs_def add_def)
  show ?thesis using a b c d by (simp add: add_def customTmplFuncs_def)
qed

theorem indent_and_add_correct_witness:
  "(0::int) \<le> 2
   \<and> indent 2 [CHR ''x'', CHR 0x0A, CHR 0x0A] = Returned (indent_spec (nat 2) [CHR ''x'', CHR 0x0A, CHR 0x0A])
   \<and> - (2 ^ 63) \<le> sint (3 :: 64 word) + sint (4 :: 64 word)
   \<and> sint (3 :: 64 word) + sint (4 :: 64 word) < 2 ^ 63
   \<and> sint (add 3 4) = sint (3 :: 64 word) + sint (4 :: 64 word)"
  using indent_and_add_correct [of 2 "[CHR ''x'', CHR 0x0A, CHR 0x0A]" 3 4]
  by simp

subsection \<open>The outcomes of Generate\<close>

lemma thenR_Returned_iff:
  "thenR r k = Returned y \<longleftrightarrow> (\<exists>x. r = Returned x \<and> k x = Returned y)"
  by (cases r) auto


lemma Generate_success_cases:
  assumes "Generate marshal parse execute order p m = Returned (None, m')"
  shows "\<exists>icData bytes bootkube.
           firstFileData (ic_Files (p_installConfig p)) = Returned icData
         \<and> marshal (configMap ''kube-system'' ''cluster-config-v1'' [''install-config'' \<mapsto> icData]) = Inr bytes
         \<and> generateBootKubeManifests parse execute order p = Returned bootkube
         \<and> m' = m\<lparr> KubeSysConfig := Some (configMap ''kube-system'' ''cluster-config-v1''
                      [''install-config'' \<mapsto> icData]),
                  FileList := SortFiles
                        ([\<lparr> Filename = kubeSysConfigPath, Data = bytes \<rparr>]
                         @ bootkube @ p_ingress p @ p_dns p @ p_network p @ p_infra p) \<rparr>"
proof (cases "firstFileData (ic_Files (p_installConfig p))")
  case (Panicked x)
  with assms show ?thesis by (simp add: Generate_def)
next
  case (Returned icData)
  show ?thesis
  proof (cases "marshal (configMap ''kube-system'' ''cluster-config-v1'' [''install-config'' \<mapsto> icData])")
    case (Inl merr)
    with assms Returned show ?thesis by (auto simp: Generate_def)
  next
    case (Inr bytes)
    with assms Returned show ?thesis
      by (cases "generateBootKubeManifests parse execute order p") (auto simp: Generate_def)
  qed
qed

subsection \<open>Template failures\<close>




subsection \<open>The concrete run, evaluated\<close>

lemma kubeSysConfigPath_eq: "kubeSysConfigPath = ''manifests/cluster-config.yaml''"
  by (simp add: kubeSysConfigPath_def filepath_Join_def manifestDir_def)

lemma set_SortFiles: "set (SortFiles files) = set files"
  by (simp add: SortFiles_def)

lemma demo_assetData:
  "assetData demo_parse demo_execute demo_parents td =
     Returned [(''kube-cloud-config.yaml'', ''t1''),
         (''machine-config-server-tls-secret.yaml'', ''t2''),
         (''openshift-service-signer-secret.yaml'', ''t3''),
         (''pull.json'', ''t4''),
         (''cvo-overrides.yaml'', ''t5''),
         (''host-etcd-service-endpoints.yaml'', ''t6''),
         (''kube-system-configmap-etcd-serving-ca.yaml'', ''t7''),
         (''kube-system-configmap-root-ca.yaml'', ''t8''),
         (''kube-system-secret-etcd-client.yaml'', ''t9''),
         (''04-openshift-machine-config-operator.yaml'', ''r1''),
         (''09-openshift-service-signer-namespace.yaml'', ''r2''),
         (''etcd-service.yaml'', ''r3''),
         (''host-etcd-service.yaml'', ''r4'')]"
  by (simp add: assetData_def demo_parents_def firstFileData_def applyTemplateData_def
      demo_parse_def demo_execute_def)

lemma demo_generateBootKubeManifests:
  "generateBootKubeManifests demo_parse demo_execute assetNames demo_parents = Returned demo_bootkube"
proof -
  have h: "etcdEndpointHostnames (p_installConfig demo_parents) = Returned (map (\<lambda>i. ''demo-etcd-'' @ fmt_d i) [0..<3])"
    by (simp add: etcdEndpointHostnames_def demo_parents_def demo_installConfig_def)
  show ?thesis
    unfolding generateBootKubeManifests_def h thenR.simps demo_assetData
    by (simp add: rangeMap_def assetNames_def filepath_Join_def manifestDir_def demo_bootkube_def)
qed

lemma demo_Generate:
  "Generate demo_marshal demo_parse demo_execute assetNames demo_parents demo_manifests
     = Returned (None, demo_generated)"
proof -
  have f: "firstFileData (ic_Files (p_installConfig demo_parents)) = Returned ''ic''"
    by (simp add: firstFileData_def demo_parents_def demo_installConfig_def)
  have m: "demo_marshal (configMap ''kube-system'' ''cluster-config-v1'' [''install-config'' \<mapsto> ''ic'']) = Inr ''ic''"
    by (simp add: demo_marshal_def configMap_def)
  have d: "p_ingress demo_parents = [\<lparr> Filename = ''manifests/cluster-ingress-02-config.yml'', Data = ''i'' \<rparr>]"
     "p_dns demo_parents = [\<lparr> Filename = ''manifests/cluster-dns-02-config.yml'', Data = ''d'' \<rparr>]"
     "p_network demo_parents = [\<lparr> Filename = ''manifests/cluster-network-02-config.yml'', Data = ''n'' \<rparr>]"
     "p_infra demo_parents = [\<lparr> Filename = ''manifests/cluster-infrastructure-02-config.yml'', Data = ''f'' \<rparr>]"
    by (simp_all add: demo_parents_def)
  show ?thesis
    unfolding Generate_def f thenR.simps Let_def m sum.case demo_generateBootKubeManifests d
    by (simp add: SortFiles_def kubeSysConfigPath_eq demo_generated_def demo_manifests_def
        demo_bootkube_def)
qed

subsection \<open>The anchor file\<close>

text \<open>
  Claim C5. When \<open>Generate\<close> succeeds, the file list holds a file at the path
  \<open>manifests/cluster-config.yaml\<close> whose content is the serialisation of the config map
  \<open>kube-system/cluster-config-v1\<close>, and that object, which \<open>Generate\<close> stores in
  \<open>KubeSysConfig\<close>, carries the bytes of the install configuration under the single key
  \<open>install-config\<close>. When the serialisation fails, \<open>Generate\<close> returns the wrapped
  error and leaves the file list as it was.
\<close>

theorem anchor_file_generated:
  "(Generate marshal parse execute order p m = Returned (None, m')
      \<longrightarrow> (\<exists>icData bytes.
             firstFileData (ic_Files (p_installConfig p)) = Returned icData
           \<and> marshal (configMap ''kube-system'' ''cluster-config-v1'' [''install-config'' \<mapsto> icData]) = Inr bytes
           \<and> KubeSysConfig m' = Some (configMap ''kube-system'' ''cluster-config-v1'' [''install-config'' \<mapsto> icData])
           \<and> \<lparr> Filename = ''manifests/cluster-config.yaml'', Data = bytes \<rparr> \<in> set (FileList m')))
   \<and> (firstFileData (ic_Files (p_installConfig p)) = Returned d
       \<and> marshal (configMap ''kube-system'' ''cluster-config-v1'' [''install-config'' \<mapsto> d]) = Inl err
      \<longrightarrow> (\<exists>m''. Generate marshal parse execute order p m
               = Returned (Some (errors_Wrap err ''failed to create kube-system/cluster-config-v1 configmap''), m'')
             \<and> FileList m'' = FileList m))"
proof -
  have a: "Generate marshal parse execute order p m = Returned (None, m')
      \<longrightarrow> (\<exists>icData bytes.
             firstFileData (ic_Files (p_installConfig p)) = Returned icData
           \<and> marshal (configMap ''kube-system'' ''cluster-config-v1'' [''install-config'' \<mapsto> icData]) = Inr bytes
           \<and> KubeSysConfig m' = Some (configMap ''kube-system'' ''cluster-config-v1'' [''install-config'' \<mapsto> icData])
           \<and> \<lparr> Filename = ''manifests/cluster-config.yaml'', Data = bytes \<rparr> \<in> set (FileList m'))"
  proof
    assume "Generate marshal parse execute order p m = Returned (None, m')"
    from Generate_success_cases [OF this] obtain icData bytes bootkube where
      h: "firstFileData (ic_Files (p_installConfig p)) = Returned icData"
         "marshal (configMap ''kube-system'' ''cluster-config-v1'' [''install-config'' \<mapsto> icData]) = Inr bytes"
         "m' = m\<lparr> KubeSysConfig := Some (configMap ''kube-system'' ''cluster-config-v1''
                      [''install-config'' \<mapsto> icData]),
                  FileList := SortFiles
                        ([\<lparr> Filename = kubeSysConfigPath, Data = bytes \<rparr>]
                         @ bootkube @ p_ingress p @ p_dns p @ p_network p @ p_infra p) \<rparr>"
      by blast
    have "\<lparr> Filename = ''manifests/cluster-config.yaml'', Data = bytes \<rparr> \<in> set (FileList m')"
      by (simp add: h(3) set_SortFiles kubeSysConfigPath_eq)
    with h show "\<exists>icData bytes.
             firstFileData (ic_Files (p_installConfig p)) = Returned icData
           \<and> marshal (configMap ''kube-system'' ''cluster-config-v1'' [''install-config'' \<mapsto> icData]) = Inr bytes
           \<and> KubeSysConfig m' = Some (configMap ''kube-system'' ''cluster-config-v1'' [''install-config'' \<mapsto> icData])
           \<and> \<lparr> Filename = ''manifests/cluster-config.yaml'', Data = bytes \<rparr> \<in> set (FileList m')"
      by auto
  qed
  have b: "firstFileData (ic_Files (p_installConfig p)) = Returned d
       \<and> marshal (configMap ''kube-system'' ''cluster-config-v1'' [''install-config'' \<mapsto> d]) = Inl err
      \<longrightarrow> (\<exists>m''. Generate marshal parse execute order p m
               = Returned (Some (errors_Wrap err ''failed to create kube-system/cluster-config-v1 configmap''), m'')
             \<and> FileList m'' = FileList m)"
    by (simp add: Generate_def)
  show ?thesis using a b by blast
qed

theorem anchor_file_generated_witness:
  "Generate demo_marshal demo_parse demo_execute assetNames demo_parents demo_manifests
     = Returned (None, demo_generated)
   \<and> (\<exists>icData bytes.
         firstFileData (ic_Files (p_installConfig demo_parents)) = Returned icData
       \<and> demo_marshal (configMap ''kube-system'' ''cluster-config-v1'' [''install-config'' \<mapsto> icData]) = Inr bytes
       \<and> KubeSysConfig demo_generated = Some (configMap ''kube-system'' ''cluster-config-v1'' [''install-config'' \<mapsto> icData])
       \<and> \<lparr> Filename = ''manifests/cluster-config.yaml'', Data = bytes \<rparr> \<in> set (FileList demo_generated))
   \<and> firstFileData (ic_Files (p_installConfig emptyic_parents)) = Returned []
   \<and> demo_marshal (configMap ''kube-system'' ''cluster-config-v1'' [''install-config'' \<mapsto> []]) = Inl ''empty document''
   \<and> (\<exists>m''. Generate demo_marshal demo_parse demo_execute assetNames emptyic_parents demo_manifests
               = Returned (Some (errors_Wrap ''empty document'' ''failed to create kube-system/cluster-config-v1 configmap''), m'')
             \<and> FileList m'' = FileList demo_manifests)"
proof -
  have f: "firstFileData (ic_Files (p_installConfig emptyic_parents)) = Returned []"
    by (simp add: firstFileData_def emptyic_parents_def demo_parents_def demo_installConfig_def)
  have m: "demo_marshal (configMap ''kube-system'' ''cluster-config-v1'' [''install-config'' \<mapsto> []]) = Inl ''empty document''"
    by (simp add: demo_marshal_def configMap_def)
  show ?thesis
    using demo_Generate f m
      anchor_file_generated [of demo_marshal demo_parse demo_execute assetNames demo_parents
        demo_manifests demo_generated "[]" "''empty document''"]
      anchor_file_generated [of demo_marshal demo_parse demo_execute assetNames emptyic_parents
        demo_manifests demo_generated "[]" "''empty document''"]
    by blast
qed

subsection \<open>The etcd endpoint hostnames\<close>

text \<open>
  Claim C6. With three masters and the cluster name \<open>demo\<close> the hostnames are
  \<open>demo-etcd-0\<close>, \<open>demo-etcd-1\<close>, \<open>demo-etcd-2\<close>. In general, for a non-negative
  master count, there is one hostname per master and entry \<open>i\<close> is the cluster name,
  \<open>-etcd-\<close> and the decimal digits of \<open>i\<close>; this list is the field
  \<open>EtcdEndpointHostnames\<close> of the template context that \<open>generateBootKubeManifests\<close>
  renders with.
\<close>

theorem etcd_hostnames:
  "etcdEndpointHostnames \<lparr> ic_Files = fs, ic_Name = ''demo'', ic_BaseDomain = ''example.com'',
                            ic_PullSecret = ps, ic_MasterCount = 3 \<rparr>
     = Returned [''demo-etcd-0'', ''demo-etcd-1'', ''demo-etcd-2'']
   \<and> (0 \<le> ic_MasterCount ic \<longrightarrow>
        (\<exists>hs. etcdEndpointHostnames ic = Returned hs
            \<and> length hs = nat (ic_MasterCount ic)
            \<and> (\<forall>i < length hs. hs ! i = ic_Name ic @ ''-etcd-'' @ fmt_d i)))
   \<and> (generateBootKubeManifests parse execute order p = Returned files
        \<longrightarrow> (\<exists>hs. etcdEndpointHostnames (p_installConfig p) = Returned hs
                \<and> EtcdEndpointHostnames (templateData p hs) = hs
                \<and> (\<exists>kvs. assetData parse execute p (templateData p hs) = Returned kvs)))"
proof -
  have a: "etcdEndpointHostnames \<lparr> ic_Files = fs, ic_Name = ''demo'', ic_BaseDomain = ''example.com'',
                            ic_PullSecret = ps, ic_MasterCount = 3 \<rparr>
     = Returned [''demo-etcd-0'', ''demo-etcd-1'', ''demo-etcd-2'']"
    by (simp add: etcdEndpointHostnames_def upt_conv_Cons digit_char_def)
  have b: "0 \<le> ic_MasterCount ic \<longrightarrow>
        (\<exists>hs. etcdEndpointHostnames ic = Returned hs
            \<and> length hs = nat (ic_MasterCount ic)
            \<and> (\<forall>i < length hs. hs ! i = ic_Name ic @ ''-etcd-'' @ fmt_d i))"
    by (simp add: etcdEndpointHostnames_def del: fmt_d.simps)
  have c: "generateBootKubeManifests parse execute order p = Returned files
        \<longrightarrow> (\<exists>hs. etcdEndpointHostnames (p_installConfig p) = Returned hs
                \<and> EtcdEndpointHostnames (templateData p hs) = hs
                \<and> (\<exists>kvs. assetData parse execute p (templateData p hs) = Returned kvs))"
    by (auto simp: generateBootKubeManifests_def thenR_Returned_iff templateData_def)
  show ?thesis using a b c by blast
qed

theorem etcd_hostnames_witness:
  "(0::int) \<le> ic_MasterCount demo_installConfig
   \<and> (\<exists>hs. etcdEndpointHostnames demo_installConfig = Returned hs
        \<and> length hs = nat (ic_MasterCount demo_installConfig)
        \<and> hs ! 2 = ic_Name demo_installConfig @ ''-etcd-'' @ fmt_d 2)
   \<and> generateBootKubeManifests demo_parse demo_execute assetNames demo_parents = Returned demo_bootkube
   \<and> (\<exists>hs. etcdEndpointHostnames (p_installConfig demo_parents) = Returned hs
        \<and> EtcdEndpointHostnames (templateData demo_parents hs) = hs
        \<and> (\<exists>kvs. assetData demo_parse demo_execute demo_parents (templateData demo_parents hs) = Returned kvs))"
proof -
  have m: "(0::int) \<le> ic_MasterCount demo_installConfig" "nat (ic_MasterCount demo_installConfig) = 3"
    by (simp_all add: demo_installConfig_def)
  from m(1) etcd_hostnames [of "[]" "[]" demo_installConfig demo_parse demo_execute assetNames
      demo_parents demo_bootkube]
  obtain hs where hs: "etcdEndpointHostnames demo_installConfig = Returned hs"
      "length hs = nat (ic_MasterCount demo_installConfig)"
      "\<forall>i < length hs. hs ! i = ic_Name demo_installConfig @ ''-etcd-'' @ fmt_d i"
    by metis
  have "hs ! 2 = ic_Name demo_installConfig @ ''-etcd-'' @ fmt_d 2"
    using hs(2,3) m(2) by simp
  with hs(1,2) have a: "\<exists>hs. etcdEndpointHostnames demo_installConfig = Returned hs
        \<and> length hs = nat (ic_MasterCount demo_installConfig)
        \<and> hs ! 2 = ic_Name demo_installConfig @ ''-etcd-'' @ fmt_d 2"
    by metis
  have b: "\<exists>hs. etcdEndpointHostnames (p_installConfig demo_parents) = Returned hs
        \<and> EtcdEndpointHostnames (templateData demo_parents hs) = hs
        \<and> (\<exists>kvs. assetData demo_parse demo_execute demo_parents (templateData demo_parents hs) = Returned kvs)"
    using demo_generateBootKubeManifests
      etcd_hostnames [of "[]" "[]" demo_installConfig demo_parse demo_execute assetNames
        demo_parents demo_bootkube]
    by metis
  show ?thesis
    using m(1) a b demo_generateBootKubeManifests by (simp only: simp_thms)
qed

subsection \<open>The encodings of the template context\<close>



subsection \<open>Load: not found, and a broken anchor\<close>

lemma loadLoop_no_anchor:
  "\<forall>f \<in> set files. Filename f \<noteq> kubeSysConfigPath
     \<Longrightarrow> loadLoop unmarshal files obj found = Inr (obj, found)"
  by (induction files) auto

lemma loadLoop_first_anchor_fails:
  "\<forall>f \<in> set pre. Filename f \<noteq> kubeSysConfigPath \<Longrightarrow> Filename a = kubeSysConfigPath
     \<Longrightarrow> unmarshal (Data a) obj = Inl err
     \<Longrightarrow> loadLoop unmarshal (pre @ a # post) obj found
         = Inl (errors_Wrap err ''failed to unmarshal cluster-config.yaml'')"
  by (induction pre) auto

lemma Load_found_cases:
  "Load fetch unmarshal m = (True, err, m') \<Longrightarrow>
     \<exists>files obj. fetch (filepath_Join manifestDir ''*'') = Inr files \<and> files \<noteq> []
        \<and> loadLoop unmarshal files zeroConfigurationObject False = Inr (obj, True)
        \<and> err = None
        \<and> m' = m\<lparr> FileList := SortFiles files, KubeSysConfig := Some obj \<rparr>"
  by (auto simp: Load_def split: sum.splits if_splits prod.splits)

lemma fetch_empty: "storage_FetchByPattern [] pat = Inr []"
  by (simp add: storage_FetchByPattern_def)

lemma fetch_partial:
  "storage_FetchByPattern partial_storage (filepath_Join manifestDir ''*'') = Inr partial_storage"
  by (simp add: storage_FetchByPattern_def partial_storage_def filepath_Join_def manifestDir_def)

lemma fetch_corrupt:
  "storage_FetchByPattern corrupt_storage (filepath_Join manifestDir ''*'') = Inr corrupt_storage"
  by (simp add: storage_FetchByPattern_def corrupt_storage_def filepath_Join_def manifestDir_def)

lemma Load_corrupt:
  "Load (storage_FetchByPattern corrupt_storage) demo_unmarshal m
     = (False, Some ''failed to unmarshal cluster-config.yaml: EOF'', m)"
  unfolding Load_def fetch_corrupt
  by (simp add: corrupt_storage_def kubeSysConfigPath_eq demo_unmarshal_def errors_Wrap_def)

text \<open>
  Claim C4. \<open>Load\<close> returns \<open>found = false\<close> and no error when the enumeration is
  empty, and when it is not empty but holds no file at \<open>manifests/cluster-config.yaml\<close>.
  When the first file at that path fails to deserialise, \<open>Load\<close> returns
  \<open>found = false\<close> with the wrapped error. The receiver is unchanged in all three cases.
\<close>

theorem Load_not_found_or_parse_error:
  "(fetch (filepath_Join manifestDir ''*'') = Inr []
      \<longrightarrow> Load fetch unmarshal m = (False, None, m))
   \<and> (fetch (filepath_Join manifestDir ''*'') = Inr files \<and> files \<noteq> []
       \<and> (\<forall>f \<in> set files. Filename f \<noteq> ''manifests/cluster-config.yaml'')
      \<longrightarrow> Load fetch unmarshal m = (False, None, m))
   \<and> (fetch (filepath_Join manifestDir ''*'') = Inr (pre @ a # post)
       \<and> (\<forall>f \<in> set pre. Filename f \<noteq> ''manifests/cluster-config.yaml'')
       \<and> Filename a = ''manifests/cluster-config.yaml''
       \<and> unmarshal (Data a) zeroConfigurationObject = Inl err
      \<longrightarrow> Load fetch unmarshal m
            = (False, Some (errors_Wrap err ''failed to unmarshal cluster-config.yaml''), m))"
  by (simp add: Load_def loadLoop_no_anchor loadLoop_first_anchor_fails kubeSysConfigPath_eq [symmetric])

theorem Load_not_found_or_parse_error_witness:
  "storage_FetchByPattern [] (filepath_Join manifestDir ''*'') = Inr []
   \<and> Load (storage_FetchByPattern []) demo_unmarshal demo_generated = (False, None, demo_generated)
   \<and> storage_FetchByPattern partial_storage (filepath_Join manifestDir ''*'') = Inr partial_storage
   \<and> partial_storage \<noteq> []
   \<and> Load (storage_FetchByPattern partial_storage) demo_unmarshal demo_generated
       = (False, None, demo_generated)
   \<and> storage_FetchByPattern corrupt_storage (filepath_Join manifestDir ''*'')
       = Inr ([\<lparr> Filename = ''manifests/cluster-ingress-02-config.yml'', Data = ''i'' \<rparr>]
              @ \<lparr> Filename = ''manifests/cluster-config.yaml'', Data = [] \<rparr>
              # [\<lparr> Filename = ''manifests/pull.json'', Data = ''t4'' \<rparr>])
   \<and> demo_unmarshal [] zeroConfigurationObject = Inl ''EOF''
   \<and> Load (storage_FetchByPattern corrupt_storage) demo_unmarshal demo_generated
       = (False, Some (errors_Wrap ''EOF'' ''failed to unmarshal cluster-config.yaml''), demo_generated)"
proof -
  have p: "partial_storage \<noteq> []"
    "\<forall>f \<in> set partial_storage. Filename f \<noteq> ''manifests/cluster-config.yaml''"
    by (simp_all add: partial_storage_def)
  have c: "storage_FetchByPattern corrupt_storage (filepath_Join manifestDir ''*'')
       = Inr ([\<lparr> Filename = ''manifests/cluster-ingress-02-config.yml'', Data = ''i'' \<rparr>]
              @ \<lparr> Filename = ''manifests/cluster-config.yaml'', Data = [] \<rparr>
              # [\<lparr> Filename = ''manifests/pull.json'', Data = ''t4'' \<rparr>])"
    using fetch_corrupt by (simp add: corrupt_storage_def)
  have u: "demo_unmarshal [] zeroConfigurationObject = Inl ''EOF''"
    by (simp add: demo_unmarshal_def)
  have q: "\<forall>f \<in> set [\<lparr> Filename = ''manifests/cluster-ingress-02-config.yml'', Data = ''i'' \<rparr>].
             Filename f \<noteq> ''manifests/cluster-config.yaml''"
    by simp
  show ?thesis
    using p c u q fetch_empty [of "filepath_Join manifestDir ''*''"] fetch_partial
      Load_not_found_or_parse_error [of "storage_FetchByPattern []" demo_unmarshal demo_generated
        "[]" "[]" "\<lparr> Filename = [], Data = [] \<rparr>" "[]" "[]"]
      Load_not_found_or_parse_error [of "storage_FetchByPattern partial_storage" demo_unmarshal
        demo_generated partial_storage "[]" "\<lparr> Filename = [], Data = [] \<rparr>" "[]" "[]"]
      Load_not_found_or_parse_error [of "storage_FetchByPattern corrupt_storage" demo_unmarshal
        demo_generated "[]"
        "[\<lparr> Filename = ''manifests/cluster-ingress-02-config.yml'', Data = ''i'' \<rparr>]"
        "\<lparr> Filename = ''manifests/cluster-config.yaml'', Data = [] \<rparr>"
        "[\<lparr> Filename = ''manifests/pull.json'', Data = ''t4'' \<rparr>]" "''EOF''"]
    by simp
qed

text \<open>
  Claim C10. Whenever \<open>Load\<close> returns \<open>found = false\<close> or an error, the receiver is
  as it was before the call. If the receiver has changed, \<open>Load\<close> returned
  \<open>found = true\<close> without an error, and the new receiver holds the sorted fetched files
  and the decoded anchor object.
\<close>

theorem Load_atomic:
  "(\<not> fst (Load fetch unmarshal m) \<or> fst (snd (Load fetch unmarshal m)) \<noteq> None
      \<longrightarrow> snd (snd (Load fetch unmarshal m)) = m)
   \<and> (snd (snd (Load fetch unmarshal m)) \<noteq> m
      \<longrightarrow> fst (Load fetch unmarshal m) \<and> fst (snd (Load fetch unmarshal m)) = None
          \<and> (\<exists>files obj. fetch (filepath_Join manifestDir ''*'') = Inr files
                \<and> snd (snd (Load fetch unmarshal m))
                    = m\<lparr> FileList := SortFiles files, KubeSysConfig := Some obj \<rparr>))"
  by (auto simp: Load_def split: sum.splits if_splits prod.splits)

theorem Load_atomic_witness:
  "\<not> fst (Load (storage_FetchByPattern corrupt_storage) demo_unmarshal demo_generated)
   \<and> Load (storage_FetchByPattern corrupt_storage) demo_unmarshal demo_generated
       = (False, Some ''failed to unmarshal cluster-config.yaml: EOF'', demo_generated)
   \<and> snd (snd (Load (storage_FetchByPattern corrupt_storage) demo_unmarshal demo_generated)) = demo_generated"
  using Load_corrupt [of demo_generated]
    Load_atomic [of "storage_FetchByPattern corrupt_storage" demo_unmarshal demo_generated]
  by simp

subsection \<open>Sorting by path\<close>

lemma filter_key_length_le1:
  "distinct (map f xs) \<Longrightarrow> length (filter (\<lambda>x. f x = k) xs) \<le> 1"
  by (induction xs) (auto simp: filter_empty_conv image_iff)

lemma short_lists_mset_eq:
  "mset xs = mset ys \<Longrightarrow> length xs \<le> 1 \<Longrightarrow> xs = ys"
  by (cases xs; cases ys) (auto simp: Suc_le_eq)

lemma filter_key_perm:
  assumes "mset xs = mset ys" and "distinct (map f xs)"
  shows "filter (\<lambda>x. f x = k) xs = filter (\<lambda>x. f x = k) ys"
proof -
  have "mset (filter (\<lambda>x. f x = k) xs) = mset (filter (\<lambda>x. f x = k) ys)"
    using assms(1) by simp
  then show ?thesis
    using filter_key_length_le1 [OF assms(2), of k] by (rule short_lists_mset_eq)
qed

lemma sort_key_perm_middle:
  assumes "mset A = mset B" and "distinct (map f A)"
  shows "sort_key f (pre @ A @ post) = sort_key f (pre @ B @ post)"
proof (rule properties_for_sort_key)
  show "mset (sort_key f (pre @ B @ post)) = mset (pre @ A @ post)"
    using assms(1) by simp
  show "sorted (map f (sort_key f (pre @ B @ post)))"
    by simp
  fix k
  have "filter (\<lambda>x. f x = f k) (sort_key f (pre @ B @ post)) = filter (\<lambda>x. f x = f k) (pre @ B @ post)"
    by (rule sort_key_stable)
  also have "\<dots> = filter (\<lambda>x. f x = f k) (pre @ A @ post)"
    using filter_key_perm [OF assms, of "f k"] by simp
  finally show "filter (\<lambda>x. f k = f x) (sort_key f (pre @ B @ post)) = filter (\<lambda>x. f k = f x) (pre @ A @ post)"
    by (simp add: eq_commute [of "f k"])
qed

lemma sorted_perm_unique:
  assumes "mset ys = mset xs" and "distinct (map f xs)" and "sorted (map f ys)"
  shows "sort_key f xs = ys"
proof (rule properties_for_sort_key [OF assms(1) _ assms(3)])
  fix k
  show "filter (\<lambda>x. f k = f x) ys = filter (\<lambda>x. f k = f x) xs"
    using filter_key_perm [OF assms(1) [symmetric] assms(2), of "f k"]
    by (simp add: eq_commute [of "f k"])
qed

subsection \<open>The order of map iteration\<close>

lemma collect_keys: "collect xs = Returned kvs \<Longrightarrow> map fst kvs = map fst xs"
proof (induction xs arbitrary: kvs)
  case Nil
  then show ?case by simp
next
  case (Cons x xs)
  obtain k r where x: "x = (k, r)" by (cases x)
  from Cons.prems x obtain v rest where
    "r = Returned v" "collect xs = Returned rest" "kvs = (k, v) # rest"
    by (auto simp: thenR_Returned_iff)
  with Cons.IH x show ?case by simp
qed

lemma mset_rangeMap:
  "mset o1 = mset o2 \<Longrightarrow> mset (rangeMap o1 kvs) = mset (rangeMap o2 kvs)"
proof -
  assume a: "mset o1 = mset o2"
  have c: "mset (concat (map g xs)) = (\<Sum>x\<in>#mset xs. mset (g x))" for g :: "'a \<Rightarrow> ('a \<times> 'b) list" and xs
    by (induction xs) auto
  show ?thesis
    unfolding rangeMap_def c a ..
qed

lemma rangeMap_Cons:
  "rangeMap (k # order) kvs
     = (case map_of kvs k of None \<Rightarrow> [] | Some v \<Rightarrow> [(k, v)]) @ rangeMap order kvs"
  by (simp add: rangeMap_def)

lemma rangeMap_Nil: "rangeMap [] kvs = []"
  by (simp add: rangeMap_def)

lemma map_fst_rangeMap:
  "map fst (rangeMap order kvs) = filter (\<lambda>k. k \<in> fst ` set kvs) order"
proof (induction order)
  case Nil
  show ?case by (simp add: rangeMap_Nil)
next
  case (Cons k order)
  show ?case
  proof (cases "map_of kvs k")
    case None
    then have "k \<notin> fst ` set kvs" by (simp add: map_of_eq_None_iff)
    with None Cons.IH show ?thesis by (simp add: rangeMap_Cons)
  next
    case (Some v)
    then have "(k, v) \<in> set kvs" by (rule map_of_SomeD)
    then have "k \<in> fst ` set kvs" by force
    with Some Cons.IH show ?thesis by (simp add: rangeMap_Cons)
  qed
qed

lemma filepath_Join_inj: "filepath_Join d a = filepath_Join d b \<longleftrightarrow> a = b"
  by (simp add: filepath_Join_def)

lemma Filename_bootkube:
  "map Filename (map (\<lambda>(nm, d). \<lparr> Filename = filepath_Join manifestDir nm, Data = d \<rparr>) kvs)
     = map (filepath_Join manifestDir) (map fst kvs)"
  by (induction kvs) auto

lemma distinct_bootkube:
  assumes "distinct order"
  shows "distinct (map Filename (map (\<lambda>(nm, d). \<lparr> Filename = filepath_Join manifestDir nm, Data = d \<rparr>)
                                      (rangeMap order kvs)))"
proof -
  have "distinct (filter (\<lambda>k. k \<in> fst ` set kvs) order)"
    using assms by simp
  then show ?thesis
    unfolding Filename_bootkube map_fst_rangeMap
    by (simp add: distinct_map inj_on_def filepath_Join_inj)
qed

lemma generateBootKubeManifests_order:
  assumes "mset o1 = mset o2"
  shows "(\<exists>e. generateBootKubeManifests parse execute o1 p = Panicked e
            \<and> generateBootKubeManifests parse execute o2 p = Panicked e)
       \<or> (\<exists>b1 b2. generateBootKubeManifests parse execute o1 p = Returned b1
            \<and> generateBootKubeManifests parse execute o2 p = Returned b2
            \<and> mset b1 = mset b2
            \<and> (distinct o1 \<longrightarrow> distinct (map Filename b1)))"
proof (cases "etcdEndpointHostnames (p_installConfig p)")
  case (Panicked e)
  then show ?thesis by (simp add: generateBootKubeManifests_def)
next
  case (Returned hs)
  show ?thesis
  proof (cases "assetData parse execute p (templateData p hs)")
    case (Panicked e)
    with Returned show ?thesis by (simp add: generateBootKubeManifests_def)
  next
    case kvs: (Returned kvs)
    have "mset (rangeMap o1 kvs) = mset (rangeMap o2 kvs)"
      using assms by (rule mset_rangeMap)
    then have "mset (map (\<lambda>(nm, d). \<lparr> Filename = filepath_Join manifestDir nm, Data = d \<rparr>) (rangeMap o1 kvs))
             = mset (map (\<lambda>(nm, d). \<lparr> Filename = filepath_Join manifestDir nm, Data = d \<rparr>) (rangeMap o2 kvs))"
      by simp
    with Returned kvs distinct_bootkube [of o1 kvs] show ?thesis
      by (simp add: generateBootKubeManifests_def)
  qed
qed

lemma iterationOrder_mset:
  "iterationOrder o1 \<Longrightarrow> iterationOrder o2 \<Longrightarrow> mset o1 = mset o2"
  unfolding iterationOrder_def by (metis set_eq_iff_mset_eq_distinct)

text \<open>
  Claim C9. \<open>Generate\<close> is deterministic: its result (panic, error or the receiver with
  the sorted file list) is a function of the resolved dependencies and does not depend
  on the order in which the run visits the entries of the map \<open>assetData\<close>. Any two
  iteration orders give the same result.
\<close>

theorem Generate_deterministic:
  assumes "iterationOrder o1" and "iterationOrder o2"
  shows "Generate marshal parse execute o1 p m = Generate marshal parse execute o2 p m"
proof -
  have ms: "mset o1 = mset o2"
    using assms by (rule iterationOrder_mset)
  have d: "distinct o1"
    using assms(1) by (simp add: iterationOrder_def)
  from generateBootKubeManifests_order [OF ms, of parse execute p]
  consider e where "generateBootKubeManifests parse execute o1 p = Panicked e"
      "generateBootKubeManifests parse execute o2 p = Panicked e"
    | b1 b2 where "generateBootKubeManifests parse execute o1 p = Returned b1"
      "generateBootKubeManifests parse execute o2 p = Returned b2"
      "mset b1 = mset b2" "distinct (map Filename b1)"
    using d by blast
  then have key: "thenR (generateBootKubeManifests parse execute o1 p) (\<lambda>bootkube.
                Returned (None :: string option,
                  m1\<lparr> FileList := SortFiles ([a] @ bootkube @ post) \<rparr>))
           = thenR (generateBootKubeManifests parse execute o2 p) (\<lambda>bootkube.
                Returned (None,
                  m1\<lparr> FileList := SortFiles ([a] @ bootkube @ post) \<rparr>))" for m1 :: Manifests and a post
  proof cases
    case 1
    then show ?thesis by simp
  next
    case 2
    have "sort_key Filename ([a] @ b1 @ post) = sort_key Filename ([a] @ b2 @ post)"
      using 2(3,4) by (rule sort_key_perm_middle)
    with 2(1,2) show ?thesis
      by (simp add: SortFiles_def)
  qed
  show ?thesis
  proof (cases "firstFileData (ic_Files (p_installConfig p))")
    case (Panicked e)
    then show ?thesis by (simp add: Generate_def)
  next
    case (Returned icData)
    show ?thesis
    proof (cases "marshal (configMap ''kube-system'' ''cluster-config-v1'' [''install-config'' \<mapsto> icData])")
      case (Inl err)
      with Returned show ?thesis by (simp add: Generate_def)
    next
      case (Inr bytes)
      show ?thesis
        unfolding Generate_def Returned thenR.simps Let_def Inr sum.case
        by (rule key)
    qed
  qed
qed

lemma iterationOrder_assetNames: "iterationOrder assetNames"
  by (simp add: iterationOrder_def assetNames_def)

lemma iterationOrder_rev_assetNames: "iterationOrder (rev assetNames)"
  using iterationOrder_assetNames by (simp add: iterationOrder_def)

theorem Generate_deterministic_witness:
  "iterationOrder assetNames \<and> iterationOrder (rev assetNames)
   \<and> Generate demo_marshal demo_parse demo_execute assetNames demo_parents demo_manifests
       = Generate demo_marshal demo_parse demo_execute (rev assetNames) demo_parents demo_manifests"
  using iterationOrder_assetNames iterationOrder_rev_assetNames
    Generate_deterministic [of assetNames "rev assetNames" demo_marshal demo_parse demo_execute
      demo_parents demo_manifests]
  by simp

subsection \<open>Sorted file lists\<close>

lemma assetData_keys:
  assumes "assetData parse execute p td = Returned kvs"
  shows "map fst kvs = assetNames"
  using collect_keys [OF assms [unfolded assetData_def Let_def]]
  by (simp only: list.map fst_conv assetNames_def)

lemma bootkube_paths:
  assumes "generateBootKubeManifests parse execute order p = Returned bk"
  shows "map Filename bk
           = map (filepath_Join manifestDir) (filter (\<lambda>k. k \<in> set assetNames) order)"
proof -
  from assms obtain hs kvs where
    kvs: "assetData parse execute p (templateData p hs) = Returned kvs"
    and bk: "bk = map (\<lambda>(nm, d). \<lparr> Filename = filepath_Join manifestDir nm, Data = d \<rparr>)
                      (rangeMap order kvs)"
    by (auto simp: generateBootKubeManifests_def thenR_Returned_iff)
  have "fst ` set kvs = set assetNames"
    using assetData_keys [OF kvs] by (metis set_map)
  then show ?thesis
    unfolding bk Filename_bootkube map_fst_rangeMap by simp
qed

lemma anchor_not_bootkube: "kubeSysConfigPath \<notin> filepath_Join manifestDir ` set assetNames"
  by (simp add: kubeSysConfigPath_def filepath_Join_inj image_iff assetNames_def)

lemma sorted_SortFiles: "sorted (map Filename (SortFiles files))"
  by (simp add: SortFiles_def)

lemma distinct_SortFiles:
  "distinct (map Filename (SortFiles files)) \<longleftrightarrow> distinct (map Filename files)"
proof -
  have "mset (map Filename (SortFiles files)) = mset (map Filename files)"
    by (simp add: SortFiles_def)
  then show ?thesis by (rule mset_eq_imp_distinct_iff)
qed

lemma generatedPaths_members:
  "kubeSysConfigPath \<in> set generatedPaths"
  "k \<in> set assetNames \<Longrightarrow> filepath_Join manifestDir k \<in> set generatedPaths"
  by (simp_all add: generatedPaths_def)

lemma Generate_paths_distinct:
  assumes bk: "generateBootKubeManifests parse execute order p = Returned bk"
    and ord: "iterationOrder order"
    and dis: "distinct (map Filename deps)"
    and new: "\<forall>f \<in> set deps. Filename f \<notin> set generatedPaths"
  shows "distinct (map Filename ([\<lparr> Filename = kubeSysConfigPath, Data = bytes \<rparr>] @ bk @ deps))"
proof -
  have so: "set order = set assetNames" and dor: "distinct order"
    using ord by (simp_all add: iterationOrder_def)
  have f: "filter (\<lambda>k. k \<in> set assetNames) order = order"
    unfolding so [symmetric] by simp
  have names: "map Filename bk = map (filepath_Join manifestDir) order"
    using bootkube_paths [OF bk] unfolding f .
  have d1: "distinct (map (filepath_Join manifestDir) order)"
    using dor by (simp add: distinct_map inj_on_def filepath_Join_inj)
  have a1: "kubeSysConfigPath \<notin> filepath_Join manifestDir ` set order"
    unfolding so by (rule anchor_not_bootkube)
  have a2: "kubeSysConfigPath \<notin> Filename ` set deps"
    using new generatedPaths_members(1) by (metis imageE)
  have a3: "filepath_Join manifestDir ` set order \<inter> Filename ` set deps = {}"
  proof (rule ccontr)
    assume "filepath_Join manifestDir ` set order \<inter> Filename ` set deps \<noteq> {}"
    then obtain x where "x \<in> filepath_Join manifestDir ` set order" "x \<in> Filename ` set deps"
      by (metis disjoint_iff)
    then obtain k f where "k \<in> set order" "f \<in> set deps" "Filename f = filepath_Join manifestDir k"
      by (metis imageE)
    then show False
      using new generatedPaths_members(2) [of k] so by metis
  qed
  have "map Filename ([\<lparr> Filename = kubeSysConfigPath, Data = bytes \<rparr>] @ bk @ deps)
          = kubeSysConfigPath # map (filepath_Join manifestDir) order @ map Filename deps"
    by (simp add: names)
  moreover have "distinct (kubeSysConfigPath # map (filepath_Join manifestDir) order @ map Filename deps)"
    using d1 a1 a2 a3 dis
    by (simp only: distinct.simps distinct_append set_append set_map Un_iff simp_thms)
  ultimately show ?thesis by (simp only:)
qed

text \<open>
  Claim C3. The paths of the file list that a successful \<open>Generate\<close> leaves, and of
  the one that \<open>Load\<close> leaves when it finds the asset, are sorted lexicographically,
  and strictly so, without a duplicate path. The ingress, DNS, network and
  infrastructure assets and the storage are declared outside \<open>operators.go\<close>; what the
  specification says of them enters as the hypotheses: every sub-unit writes under its
  own constant filename, distinct from all others (so the four assets' files have
  pairwise distinct paths, none of them the anchor path or the path of a bootkube
  file), and a storage lists a path once. The order of the paths alone, without
  strictness, needs none of this.
\<close>

theorem FileList_sorted:
  "(Generate marshal parse execute order p m = Returned (None, m')
      \<longrightarrow> sorted (map Filename (FileList m')))
   \<and> (Generate marshal parse execute order p m = Returned (None, m')
       \<and> iterationOrder order
       \<and> distinct (map Filename (p_ingress p @ p_dns p @ p_network p @ p_infra p))
       \<and> (\<forall>f \<in> set (p_ingress p @ p_dns p @ p_network p @ p_infra p).
             Filename f \<notin> set generatedPaths)
      \<longrightarrow> sorted_wrt (<) (map Filename (FileList m')))
   \<and> (Load fetch unmarshal l = (True, err, l')
      \<longrightarrow> sorted (map Filename (FileList l')))
   \<and> (Load fetch unmarshal l = (True, err, l')
       \<and> fetch (filepath_Join manifestDir ''*'') = Inr files
       \<and> distinct (map Filename files)
      \<longrightarrow> sorted_wrt (<) (map Filename (FileList l')))"
proof -
  have g1: "sorted (map Filename (FileList m'))"
    if "Generate marshal parse execute order p m = Returned (None, m')"
  proof -
    from Generate_success_cases [OF that] obtain files where "FileList m' = SortFiles files"
      by auto
    then show ?thesis by (simp add: sorted_SortFiles)
  qed
  have g2: "sorted_wrt (<) (map Filename (FileList m'))"
    if gen: "Generate marshal parse execute order p m = Returned (None, m')"
      and ord: "iterationOrder order"
      and dis: "distinct (map Filename (p_ingress p @ p_dns p @ p_network p @ p_infra p))"
      and new: "\<forall>f \<in> set (p_ingress p @ p_dns p @ p_network p @ p_infra p).
             Filename f \<notin> set generatedPaths"
  proof -
    from Generate_success_cases [OF gen] obtain icData bytes bk where
      bk: "generateBootKubeManifests parse execute order p = Returned bk"
      and m': "FileList m' = SortFiles ([\<lparr> Filename = kubeSysConfigPath, Data = bytes \<rparr>]
                 @ bk @ p_ingress p @ p_dns p @ p_network p @ p_infra p)"
      by auto
    have "distinct (map Filename (FileList m'))"
      unfolding m' distinct_SortFiles
      using Generate_paths_distinct [OF bk ord dis new] .
    with g1 [OF gen] show ?thesis
      by (simp add: strict_sorted_iff)
  qed
  have l1: "sorted (map Filename (FileList l'))"
    if "Load fetch unmarshal l = (True, err, l')"
  proof -
    from Load_found_cases [OF that] obtain files where "FileList l' = SortFiles files"
      by auto
    then show ?thesis by (simp add: sorted_SortFiles)
  qed
  have l2: "sorted_wrt (<) (map Filename (FileList l'))"
    if ld: "Load fetch unmarshal l = (True, err, l')"
      and "fetch (filepath_Join manifestDir ''*'') = Inr files"
      and "distinct (map Filename files)"
  proof -
    from Load_found_cases [OF ld] that(2) have "FileList l' = SortFiles files"
      by auto
    with that(3) have "distinct (map Filename (FileList l'))"
      by (simp add: distinct_SortFiles)
    with l1 [OF ld] show ?thesis
      by (simp add: strict_sorted_iff)
  qed
  show ?thesis
  proof (intro conjI impI)
    assume "Generate marshal parse execute order p m = Returned (None, m')"
    then show "sorted (map Filename (FileList m'))" by (rule g1)
  next
    assume "Generate marshal parse execute order p m = Returned (None, m')
       \<and> iterationOrder order
       \<and> distinct (map Filename (p_ingress p @ p_dns p @ p_network p @ p_infra p))
       \<and> (\<forall>f \<in> set (p_ingress p @ p_dns p @ p_network p @ p_infra p).
             Filename f \<notin> set generatedPaths)"
    then show "sorted_wrt (<) (map Filename (FileList m'))"
      by (elim conjE) (rule g2)
  next
    assume "Load fetch unmarshal l = (True, err, l')"
    then show "sorted (map Filename (FileList l'))" by (rule l1)
  next
    assume "Load fetch unmarshal l = (True, err, l')
       \<and> fetch (filepath_Join manifestDir ''*'') = Inr files
       \<and> distinct (map Filename files)"
    then show "sorted_wrt (<) (map Filename (FileList l'))"
      by (elim conjE) (rule l2)
  qed
qed

lemma fetch_good:
  "storage_FetchByPattern good_storage (filepath_Join manifestDir ''*'') = Inr good_storage"
  by (simp add: storage_FetchByPattern_def good_storage_def filepath_Join_def manifestDir_def)

lemma Load_good:
  "Load (storage_FetchByPattern good_storage) demo_unmarshal demo_manifests
     = (True, None,
        \<lparr> KubeSysConfig = Some (configMap ''kube-system'' ''cluster-config-v1'' [''install-config'' \<mapsto> ''ic'']),
          FileList = [\<lparr> Filename = ''manifests/cluster-config.yaml'', Data = ''ic'' \<rparr>,
                      \<lparr> Filename = ''manifests/pull.json'', Data = ''t4'' \<rparr>] \<rparr>)"
  unfolding Load_def fetch_good
  by (simp add: good_storage_def kubeSysConfigPath_eq demo_unmarshal_def SortFiles_def
      demo_manifests_def)

lemma demo_deps_distinct:
  "distinct (map Filename (p_ingress demo_parents @ p_dns demo_parents @ p_network demo_parents
                             @ p_infra demo_parents))"
  by (simp add: demo_parents_def)

lemma demo_deps_new:
  "\<forall>f \<in> set (p_ingress demo_parents @ p_dns demo_parents @ p_network demo_parents
                             @ p_infra demo_parents). Filename f \<notin> set generatedPaths"
  by (simp add: demo_parents_def generatedPaths_def kubeSysConfigPath_eq assetNames_def
      filepath_Join_def manifestDir_def)

theorem FileList_sorted_witness:
  "Generate demo_marshal demo_parse demo_execute assetNames demo_parents demo_manifests
     = Returned (None, demo_generated)
   \<and> iterationOrder assetNames
   \<and> distinct (map Filename (p_ingress demo_parents @ p_dns demo_parents @ p_network demo_parents
                             @ p_infra demo_parents))
   \<and> sorted_wrt (<) (map Filename (FileList demo_generated))
   \<and> Load (storage_FetchByPattern good_storage) demo_unmarshal demo_manifests
     = (True, None,
        \<lparr> KubeSysConfig = Some (configMap ''kube-system'' ''cluster-config-v1'' [''install-config'' \<mapsto> ''ic'']),
          FileList = [\<lparr> Filename = ''manifests/cluster-config.yaml'', Data = ''ic'' \<rparr>,
                      \<lparr> Filename = ''manifests/pull.json'', Data = ''t4'' \<rparr>] \<rparr>)
   \<and> storage_FetchByPattern good_storage (filepath_Join manifestDir ''*'') = Inr good_storage
   \<and> distinct (map Filename good_storage)
   \<and> sorted_wrt (<) (map Filename
        (FileList \<lparr> KubeSysConfig = Some (configMap ''kube-system'' ''cluster-config-v1'' [''install-config'' \<mapsto> ''ic'']),
          FileList = [\<lparr> Filename = ''manifests/cluster-config.yaml'', Data = ''ic'' \<rparr>,
                      \<lparr> Filename = ''manifests/pull.json'', Data = ''t4'' \<rparr>] \<rparr>))"
proof -
  have d: "distinct (map Filename good_storage)"
    by (simp add: good_storage_def)
  have a: "sorted_wrt (<) (map Filename (FileList demo_generated))"
    using demo_Generate iterationOrder_assetNames demo_deps_distinct demo_deps_new
      FileList_sorted [of demo_marshal demo_parse demo_execute assetNames demo_parents
        demo_manifests demo_generated]
    by (simp only: simp_thms)
  have b: "sorted_wrt (<) (map Filename
        (FileList \<lparr> KubeSysConfig = Some (configMap ''kube-system'' ''cluster-config-v1'' [''install-config'' \<mapsto> ''ic'']),
          FileList = [\<lparr> Filename = ''manifests/cluster-config.yaml'', Data = ''ic'' \<rparr>,
                      \<lparr> Filename = ''manifests/pull.json'', Data = ''t4'' \<rparr>] \<rparr>))"
    using Load_good fetch_good d
      FileList_sorted [of demo_marshal demo_parse demo_execute assetNames demo_parents
        demo_manifests demo_generated "storage_FetchByPattern good_storage" demo_unmarshal
        demo_manifests None
        "\<lparr> KubeSysConfig = Some (configMap ''kube-system'' ''cluster-config-v1'' [''install-config'' \<mapsto> ''ic'']),
          FileList = [\<lparr> Filename = ''manifests/cluster-config.yaml'', Data = ''ic'' \<rparr>,
                      \<lparr> Filename = ''manifests/pull.json'', Data = ''t4'' \<rparr>] \<rparr>"
        good_storage]
    by (simp only: simp_thms)
  show ?thesis
    using demo_Generate iterationOrder_assetNames demo_deps_distinct Load_good
      fetch_good d a b
    by (simp only: simp_thms)
qed

subsection \<open>Loading what was generated\<close>

lemma loadLoop_unique_anchor:
  assumes "distinct (map Filename files)" and "a \<in> set files"
    and "Filename a = kubeSysConfigPath" and "unmarshal (Data a) obj0 = Inr obj"
  shows "loadLoop unmarshal files obj0 found = Inr (obj, True)"
  using assms
proof (induction files arbitrary: found)
  case Nil
  then show ?case by simp
next
  case (Cons f files)
  show ?case
  proof (cases "f = a")
    case True
    have "\<forall>g \<in> set files. Filename g \<noteq> kubeSysConfigPath"
      using Cons.prems(1,3) True by (metis distinct.simps(2) image_eqI list.simps(9) set_map)
    then have "loadLoop unmarshal files obj True = Inr (obj, True)"
      by (rule loadLoop_no_anchor)
    with True Cons.prems(3,4) show ?thesis by simp
  next
    case False
    with Cons.prems(2) have a: "a \<in> set files" by simp
    have "Filename f \<noteq> kubeSysConfigPath"
      using Cons.prems(1,3) a by (metis distinct.simps(2) image_eqI list.simps(9) set_map)
    moreover have "loadLoop unmarshal files obj0 found = Inr (obj, True)"
      using Cons.IH [OF _ a Cons.prems(3,4)] Cons.prems(1) by simp
    ultimately show ?thesis by simp
  qed
qed

lemma glob_anchor: "glob_match (filepath_Join manifestDir ''*'') kubeSysConfigPath"
  by (simp add: kubeSysConfigPath_def filepath_Join_def manifestDir_def)

lemma glob_assetNames:
  "\<forall>k \<in> set assetNames. glob_match (filepath_Join manifestDir ''*'') (filepath_Join manifestDir k)"
  by (simp add: assetNames_def filepath_Join_def manifestDir_def)

lemma glob_bootkube:
  assumes "generateBootKubeManifests parse execute order p = Returned bk"
  shows "\<forall>f \<in> set bk. glob_match (filepath_Join manifestDir ''*'') (Filename f)"
proof
  fix f assume "f \<in> set bk"
  then have "Filename f \<in> set (map Filename bk)" by simp
  then have "Filename f \<in> filepath_Join manifestDir ` {k \<in> set order. k \<in> set assetNames}"
    unfolding bootkube_paths [OF assms] by simp
  then obtain k where "k \<in> set assetNames" "Filename f = filepath_Join manifestDir k"
    by (metis (mono_tags, lifting) imageE mem_Collect_eq)
  with glob_assetNames show "glob_match (filepath_Join manifestDir ''*'') (Filename f)"
    by metis
qed

text \<open>
  Claim C2. When \<open>Generate\<close> succeeds and the storage holds exactly the files it
  produced, \<open>Load\<close> on that storage returns \<open>found = true\<close> without an error, with
  the file list that \<open>Generate\<close> produced (same paths, same contents, same order) and
  the anchor object that \<open>Generate\<close> assembled. The ingress, DNS, network and
  infrastructure assets, the storage and the YAML codec are outside \<open>operators.go\<close>;
  what the specification says of them enters as the hypotheses: every artifact lies
  directly under the output root (so the pattern \<open>manifests/*\<close> matches the four
  assets' files), a storage holds one file per path, and parsing the serialised anchor
  object gives the object back.
\<close>

theorem Load_after_Generate:
  assumes gen: "Generate marshal parse execute order p m = Returned (None, g)"
    and codec: "\<forall>obj bytes. KubeSysConfig g = Some obj \<and> marshal obj = Inr bytes
                  \<longrightarrow> unmarshal bytes zeroConfigurationObject = Inr obj"
    and under: "\<forall>f \<in> set (p_ingress p @ p_dns p @ p_network p @ p_infra p).
                  glob_match (filepath_Join manifestDir ''*'') (Filename f)"
    and exactly: "mset storage = mset (FileList g)"
    and paths: "distinct (map Filename storage)"
  shows "Load (storage_FetchByPattern storage) unmarshal l
           = (True, None, l\<lparr> FileList := FileList g, KubeSysConfig := KubeSysConfig g \<rparr>)"
proof -
  from Generate_success_cases [OF gen] obtain icData bytes bk where
    mar: "marshal (configMap ''kube-system'' ''cluster-config-v1'' [''install-config'' \<mapsto> icData]) = Inr bytes"
    and bk: "generateBootKubeManifests parse execute order p = Returned bk"
    and g: "g = m\<lparr> KubeSysConfig := Some (configMap ''kube-system'' ''cluster-config-v1''
                      [''install-config'' \<mapsto> icData]),
                  FileList := SortFiles
                        ([\<lparr> Filename = kubeSysConfigPath, Data = bytes \<rparr>]
                         @ bk @ p_ingress p @ p_dns p @ p_network p @ p_infra p) \<rparr>"
    by blast
  define cfg where "cfg = configMap ''kube-system'' ''cluster-config-v1'' [''install-config'' \<mapsto> icData]"
  define anchor where "anchor = \<lparr> Filename = kubeSysConfigPath, Data = bytes \<rparr>"
  define merged where "merged = [anchor] @ bk @ p_ingress p @ p_dns p @ p_network p @ p_infra p"
  have kc: "KubeSysConfig g = Some cfg" and fl: "FileList g = SortFiles merged"
    by (simp_all add: g cfg_def merged_def anchor_def)
  have um: "unmarshal bytes zeroConfigurationObject = Inr cfg"
    using codec kc mar by (simp add: cfg_def)
  have sets: "set storage = set merged"
    using exactly fl by (metis mset_eq_setD set_SortFiles)
  have "\<forall>f \<in> set merged. glob_match (filepath_Join manifestDir ''*'') (Filename f)"
    using glob_bootkube [OF bk] under glob_anchor by (auto simp: merged_def anchor_def)
  then have fetch: "storage_FetchByPattern storage (filepath_Join manifestDir ''*'') = Inr storage"
    by (simp add: storage_FetchByPattern_def sets)
  have mem: "anchor \<in> set storage"
    by (simp add: sets merged_def)
  then have ne: "storage \<noteq> []"
    by auto
  have loop: "loadLoop unmarshal storage zeroConfigurationObject False = Inr (cfg, True)"
  proof (rule loadLoop_unique_anchor [OF paths mem])
    show "Filename anchor = kubeSysConfigPath" by (simp add: anchor_def)
    show "unmarshal (Data anchor) zeroConfigurationObject = Inr cfg" by (simp add: anchor_def um)
  qed
  have "sort_key Filename storage = FileList g"
  proof (rule sorted_perm_unique)
    show "mset (FileList g) = mset storage" using exactly by simp
    show "distinct (map Filename storage)" by (rule paths)
    show "sorted (map Filename (FileList g))" by (simp add: fl sorted_SortFiles)
  qed
  then have srt: "SortFiles storage = FileList g"
    by (simp add: SortFiles_def)
  show ?thesis
    unfolding Load_def fetch
    by (simp add: ne loop srt kc)
qed

lemma demo_codec:
  "\<forall>obj bytes. KubeSysConfig demo_generated = Some obj \<and> demo_marshal obj = Inr bytes
      \<longrightarrow> demo_unmarshal bytes zeroConfigurationObject = Inr obj"
  by (simp add: demo_generated_def demo_marshal_def demo_unmarshal_def configMap_def)

lemma demo_deps_under:
  "\<forall>f \<in> set (p_ingress demo_parents @ p_dns demo_parents @ p_network demo_parents
                 @ p_infra demo_parents).
      glob_match (filepath_Join manifestDir ''*'') (Filename f)"
  by (simp add: demo_parents_def filepath_Join_def manifestDir_def)

lemma demo_storage_paths: "distinct (map Filename demo_storage)"
  by (simp add: demo_storage_def demo_generated_def)

theorem Load_after_Generate_witness:
  "Generate demo_marshal demo_parse demo_execute assetNames demo_parents demo_manifests
     = Returned (None, demo_generated)
   \<and> mset demo_storage = mset (FileList demo_generated)
   \<and> distinct (map Filename demo_storage)
   \<and> Load (storage_FetchByPattern demo_storage) demo_unmarshal demo_manifests
       = (True, None, demo_manifests\<lparr> FileList := FileList demo_generated,
                                        KubeSysConfig := KubeSysConfig demo_generated \<rparr>)"
proof -
  have e: "mset demo_storage = mset (FileList demo_generated)"
    by (simp add: demo_storage_def)
  show ?thesis
    using demo_Generate e demo_storage_paths
      Load_after_Generate [where marshal = demo_marshal and parse = demo_parse
        and execute = demo_execute and order = assetNames and p = demo_parents
        and m = demo_manifests and g = demo_generated and unmarshal = demo_unmarshal
        and storage = demo_storage and l = demo_manifests,
        OF demo_Generate demo_codec demo_deps_under e demo_storage_paths]
    by (simp only: simp_thms)
qed

end
